theory Spec2Isabelle
  imports Complex_Main "HOL-Library.Multiset"
begin

section \<open>JavaScript values and built-ins used by the program\<close>

text \<open>
  Strings are \<open>string\<close>; \<open>String.prototype.toLowerCase\<close> is modelled on the ASCII
  letters (other characters are left as they are). An optional value
  (\<open>undefined\<close>) is \<open>None\<close>. JavaScript's truthiness, which the source uses in
  \<open>if (x)\<close>, \<open>!x\<close> and \<open>x || y\<close>, is written out: \<open>undefined\<close>, the empty string
  and the number \<open>0\<close> are falsy.
\<close>

definition lowerChar :: "char \<Rightarrow> char" where
  "lowerChar c =
     (let n = (of_char c :: nat) in if 65 \<le> n \<and> n \<le> 90 then char_of (n + 32) else c)"

definition toLowerCase :: "string \<Rightarrow> string" where
  "toLowerCase s = map lowerChar s"

fun startsWith :: "string \<Rightarrow> string \<Rightarrow> bool" where
  "startsWith s [] = True"
| "startsWith [] (p # ps) = False"
| "startsWith (c # cs) (p # ps) = (c = p \<and> startsWith cs ps)"

text \<open>\<open>s.includes(p)\<close>.\<close>

fun includesStr :: "string \<Rightarrow> string \<Rightarrow> bool" where
  "includesStr [] p = (p = [])"
| "includesStr (c # cs) p = (startsWith (c # cs) p \<or> includesStr cs p)"

definition truthyStr :: "string option \<Rightarrow> bool" where
  "truthyStr v = (case v of None \<Rightarrow> False | Some s \<Rightarrow> s \<noteq> [])"

definition truthyNum :: "int option \<Rightarrow> bool" where
  "truthyNum v = (case v of None \<Rightarrow> False | Some n \<Rightarrow> n \<noteq> 0)"

text \<open>\<open>x || undefined\<close> on an optional string or number.\<close>

definition strOrUndefined :: "string option \<Rightarrow> string option" where
  "strOrUndefined v = (if truthyStr v then v else None)"

definition numOrUndefined :: "int option \<Rightarrow> int option" where
  "numOrUndefined v = (if truthyNum v then v else None)"

text \<open>\<open>x || ''\<close> on an optional string.\<close>

definition strOrEmpty :: "string option \<Rightarrow> string" where
  "strOrEmpty v = (case v of None \<Rightarrow> [] | Some s \<Rightarrow> s)"

subsection \<open>\<open>Map\<close>: insertion-ordered, one entry per key\<close>

text \<open>
  A JavaScript \<open>Map\<close> iterates in insertion order; \<open>set\<close> on a key already present
  replaces the value and keeps the entry's position; \<open>delete\<close> removes the entry.
\<close>

type_synonym ('k, 'v) jsmap = "('k \<times> 'v) list"

fun Map_get :: "('k, 'v) jsmap \<Rightarrow> 'k \<Rightarrow> 'v option" where
  "Map_get [] k = None"
| "Map_get ((k', v) # m) k = (if k' = k then Some v else Map_get m k)"

fun Map_set :: "'k \<Rightarrow> 'v \<Rightarrow> ('k, 'v) jsmap \<Rightarrow> ('k, 'v) jsmap" where
  "Map_set k v [] = [(k, v)]"
| "Map_set k v ((k', v') # m) = (if k' = k then (k, v) # m else (k', v') # Map_set k v m)"

fun Map_delete :: "'k \<Rightarrow> ('k, 'v) jsmap \<Rightarrow> ('k, 'v) jsmap" where
  "Map_delete k [] = []"
| "Map_delete k ((k', v') # m) = (if k' = k then Map_delete k m else (k', v') # Map_delete k m)"

section \<open>accounts.ts: the account manager\<close>

record GSCAccount =
  id' :: string
  email :: string
  refreshToken :: string
  accessToken :: "string option"
  expiresAt :: "int option"

record Credentials =
  refresh_token :: "string option"
  access_token :: "string option"
  expiry_date :: "int option"

text \<open>
  An \<open>OAuth2Client\<close> of google-auth-library, as far as the manager uses it: the
  constructor arguments, the mutable \<open>credentials\<close>, and the account object that
  the \<open>'tokens'\<close> listener installed by \<open>getAuthClient\<close> has captured.
\<close>

record OAuth2Client =
  client_id :: string
  client_secret :: string
  redirectUri :: string
  credentials :: Credentials
  tokensListener :: nat

text \<open>
  Accounts and clients are objects: both maps of the manager hold references, and
  the same account object is stored under two keys. The objects live in two
  stores indexed by addresses; \<open>accountNext\<close> and \<open>clientNext\<close> are the first
  unused addresses. \<open>refreshCalls\<close> records the calls made to the identity
  provider (the credentials each \<open>refreshAccessToken\<close> was called on).
\<close>

record AccountManager =
  accounts :: "(string, nat) jsmap"
  authClients :: "(string, nat) jsmap"
  clientId :: string
  clientSecret :: string
  accountStore :: "nat \<Rightarrow> GSCAccount"
  accountNext :: nat
  clientStore :: "nat \<Rightarrow> OAuth2Client"
  clientNext :: nat
  refreshCalls :: "Credentials list"

definition noAccount :: GSCAccount where
  "noAccount = \<lparr>id' = [], email = [], refreshToken = [], accessToken = None, expiresAt = None\<rparr>"

definition noClient :: OAuth2Client where
  "noClient = \<lparr>client_id = [], client_secret = [], redirectUri = [],
     credentials = \<lparr>refresh_token = None, access_token = None, expiry_date = None\<rparr>,
     tokensListener = 0\<rparr>"

text \<open>\<open>new AccountManager(clientId, clientSecret)\<close>; unused store cells hold a filler.\<close>

definition newAccountManager :: "string \<Rightarrow> string \<Rightarrow> AccountManager" where
  "newAccountManager cid csecret =
     \<lparr>accounts = [], authClients = [], clientId = cid, clientSecret = csecret,
      accountStore = (\<lambda>_. noAccount), accountNext = 0,
      clientStore = (\<lambda>_. noClient), clientNext = 0, refreshCalls = []\<rparr>"

text \<open>
  \<open>addAccount(account)\<close>. Every caller passes a new object (an object literal in
  \<open>registerAccount\<close> and \<open>fromEnvironment\<close>, a freshly parsed JSON value
  otherwise), so the account is allocated at a new address.
\<close>

definition addAccount :: "GSCAccount \<Rightarrow> AccountManager \<Rightarrow> AccountManager" where
  "addAccount account m =
     (let a = accountNext m in
      m\<lparr>accountStore := (accountStore m)(a := account),
        accountNext := Suc a,
        accounts := Map_set (toLowerCase (email account)) a (Map_set (id' account) a (accounts m)),
        authClients :=
          Map_delete (toLowerCase (email account)) (Map_delete (id' account) (authClients m))\<rparr>)"

definition registerAccount ::
  "string \<Rightarrow> string \<Rightarrow> string \<Rightarrow> string option \<Rightarrow> AccountManager \<Rightarrow> AccountManager" where
  "registerAccount i e rtok atok m =
     addAccount \<lparr>id' = i, email = e, refreshToken = rtok, accessToken = atok, expiresAt = None\<rparr> m"

text \<open>\<open>listAccounts()\<close>: the loop over the map's entries, with its \<open>seen\<close> set.\<close>

fun listAccounts_loop ::
  "(nat \<Rightarrow> GSCAccount) \<Rightarrow> (string, nat) jsmap \<Rightarrow> string list \<Rightarrow> (string \<times> string) list" where
  "listAccounts_loop st [] seen = []"
| "listAccounts_loop st ((key, a) # rest) seen =
     (if id' (st a) \<notin> set seen
      then (id' (st a), email (st a)) # listAccounts_loop st rest (id' (st a) # seen)
      else listAccounts_loop st rest seen)"

definition listAccounts :: "AccountManager \<Rightarrow> (string \<times> string) list" where
  "listAccounts m = listAccounts_loop (accountStore m) (accounts m) []"

text \<open>\<open>getAccount(idOrEmail)\<close>: an object is always truthy, so \<open>||\<close> falls through
  only on \<open>undefined\<close>. The result is the reference to the account object.\<close>

definition getAccount :: "AccountManager \<Rightarrow> string \<Rightarrow> nat option" where
  "getAccount m idOrEmail =
     (case Map_get (accounts m) idOrEmail of
        Some a \<Rightarrow> Some a
      | None \<Rightarrow> Map_get (accounts m) (toLowerCase idOrEmail))"

section \<open>\<open>getAuthClient\<close>\<close>

text \<open>
  The errors the manager throws, by the message each \<open>new Error(...)\<close> builds:
  \<open>Account not found: <selector>\<close>, \<open>No accounts configured. ...\<close> and
  \<open>Failed to refresh token for <email>: <cause>\<close>. \<open>JsTypeError\<close> is the
  \<open>TypeError\<close> of reading a property of \<open>undefined\<close>.
\<close>

datatype error =
    AccountNotFound string
  | NoAccountsConfigured
  | TokenRefreshFailed string string
  | JsTypeError

text \<open>
  What \<open>getAuthClient\<close> reads from outside the program: the clock
  (\<open>Date.now()\<close>) and the identity provider's answer to \<open>refreshAccessToken()\<close>
  on a client holding the given credentials, \<open>Inl cause\<close> when the call throws.
\<close>

record Env =
  now :: int
  refreshAccessToken :: "Credentials \<Rightarrow> string + Credentials"

text \<open>Lines 152-166: the account to use. An empty selector is falsy.\<close>

definition resolveAccount :: "AccountManager \<Rightarrow> string option \<Rightarrow> error + nat" where
  "resolveAccount m idOrEmail =
     (if truthyStr idOrEmail
      then (case getAccount m (the idOrEmail) of
              None \<Rightarrow> Inl (AccountNotFound (the idOrEmail))
            | Some a \<Rightarrow> Inr a)
      else (case listAccounts m of
              [] \<Rightarrow> Inl NoAccountsConfigured
            | first # _ \<Rightarrow>
                (case getAccount m (fst first) of
                   None \<Rightarrow> Inl JsTypeError
                 | Some a \<Rightarrow> Inr a)))"

text \<open>
  Lines 168-191: the cached client of the account, or a new client seeded with
  the account's refresh and access token (\<open>seedCredentials\<close>, the argument of
  \<open>setCredentials\<close>) and stored under the account's id. The result is the
  client's address and the manager after the lookup.
\<close>

definition seedCredentials :: "GSCAccount \<Rightarrow> Credentials" where
  "seedCredentials account =
     \<lparr>refresh_token = Some (refreshToken account), access_token = accessToken account,
      expiry_date = None\<rparr>"

definition cachedClient :: "AccountManager \<Rightarrow> nat \<Rightarrow> nat \<times> AccountManager" where
  "cachedClient m a =
     (let account = accountStore m a; cacheKey = id' account in
      case Map_get (authClients m) cacheKey of
        Some c \<Rightarrow> (c, m)
      | None \<Rightarrow>
          (let c = clientNext m;
               client = \<lparr>client_id = clientId m, client_secret = clientSecret m,
                         redirectUri = ''http://localhost'',
                         credentials = seedCredentials account,
                         tokensListener = a\<rparr>
           in (c, m\<lparr>clientStore := (clientStore m)(c := client),
                    clientNext := Suc c,
                    authClients := Map_set cacheKey c (authClients m)\<rparr>)))"

text \<open>Line 196: \<open>tokens.expiry_date || account.expiresAt || 0\<close>.\<close>

definition knownExpiry :: "Credentials \<Rightarrow> GSCAccount \<Rightarrow> int" where
  "knownExpiry tokens account =
     (if truthyNum (expiry_date tokens) then the (expiry_date tokens)
      else if truthyNum (expiresAt account) then the (expiresAt account)
      else 0)"

text \<open>Line 198: the condition under which the token is refreshed.\<close>

definition needsRefresh :: "int \<Rightarrow> Credentials \<Rightarrow> GSCAccount \<Rightarrow> bool" where
  "needsRefresh t tokens account =
     (\<not> truthyStr (access_token tokens) \<or> knownExpiry tokens account < t + 60000)"

text \<open>
  Lines 181-188: the \<open>'tokens'\<close> listener, run on the account object it captured.
  The client emits \<open>'tokens'\<close> with the new tokens whenever a refresh succeeds.
\<close>

definition onTokens :: "Credentials \<Rightarrow> GSCAccount \<Rightarrow> GSCAccount" where
  "onTokens tokens account =
     (if truthyStr (access_token tokens)
      then (if truthyNum (expiry_date tokens)
            then account\<lparr>accessToken := access_token tokens, expiresAt := expiry_date tokens\<rparr>
            else account\<lparr>accessToken := access_token tokens\<rparr>)
      else account)"

text \<open>Lines 193-210, on the resolved account \<open>a\<close> and its client \<open>c\<close>.\<close>

definition ensureValidToken ::
  "Env \<Rightarrow> nat \<Rightarrow> nat \<Rightarrow> AccountManager \<Rightarrow> (error + nat \<times> nat) \<times> AccountManager" where
  "ensureValidToken env c a m =
     (let client = clientStore m c; tokens = credentials client; account = accountStore m a in
      if needsRefresh (now env) tokens account
      then (let m1 = m\<lparr>refreshCalls := refreshCalls m @ [tokens]\<rparr> in
            case refreshAccessToken env tokens of
              Inl e \<Rightarrow> (Inl (TokenRefreshFailed (email account) e), m1)
            | Inr creds \<Rightarrow>
                (let l = tokensListener client;
                     st1 = (accountStore m1)(l := onTokens creds (accountStore m1 l));
                     st2 = st1(a := (st1 a)\<lparr>accessToken := strOrUndefined (access_token creds),
                                            expiresAt := numOrUndefined (expiry_date creds)\<rparr>)
                 in (Inr (c, a),
                     m1\<lparr>clientStore := (clientStore m1)(c := client\<lparr>credentials := creds\<rparr>),
                        accountStore := st2\<rparr>)))
      else (Inr (c, a), m))"

text \<open>
  \<open>getAuthClient(idOrEmail?)\<close>: the result is the error thrown, or the pair of the
  client and the account (as references), together with the manager afterwards.
\<close>

definition getAuthClient ::
  "Env \<Rightarrow> string option \<Rightarrow> AccountManager \<Rightarrow> (error + nat \<times> nat) \<times> AccountManager" where
  "getAuthClient env idOrEmail m =
     (case resolveAccount m idOrEmail of
        Inl e \<Rightarrow> (Inl e, m)
      | Inr a \<Rightarrow> (case cachedClient m a of (c, m') \<Rightarrow> ensureValidToken env c a m'))"

section \<open>The Search Console service\<close>

subsection \<open>Numbers\<close>

text \<open>
  The numbers of a row (clicks, impressions, click-through rate, position) and
  the thresholds are JavaScript numbers. They are modelled as exact reals: the
  rounding of double-precision arithmetic is not part of the model. \<open>x || 0\<close> on
  an optional number is \<open>numOr0\<close>.
\<close>

definition numOr0 :: "real option \<Rightarrow> real" where
  "numOr0 v = (case v of None \<Rightarrow> 0 | Some x \<Rightarrow> x)"

text \<open>\<open>Math.round\<close>: the nearest integer, a half rounded up.\<close>

definition mathRound :: "real \<Rightarrow> real" where
  "mathRound x = of_int \<lfloor>x + 1 / 2\<rfloor>"

text \<open>
  \<open>Number(x.toFixed(d))\<close>: the decimal with \<open>d\<close> fraction digits nearest to the
  magnitude of \<open>x\<close> (the larger one on a tie), with the sign of \<open>x\<close>; from
  \<open>10^21\<close> on, \<open>toFixed\<close> prints the number as it is.
\<close>

definition toFixed :: "nat \<Rightarrow> real \<Rightarrow> real" where
  "toFixed d x =
     (if 10 ^ 21 \<le> \<bar>x\<bar> then x
      else sgn x * of_int \<lfloor>\<bar>x\<bar> * 10 ^ d + 1 / 2\<rfloor> / 10 ^ d)"

text \<open>
  A division: \<open>None\<close> stands for the results that are not finite numbers
  (\<open>Infinity\<close>, \<open>-Infinity\<close>, \<open>NaN\<close>), which a division by zero gives.
\<close>

definition jsDivide :: "real \<Rightarrow> real \<Rightarrow> real option" where
  "jsDivide x y = (if y = 0 then None else Some (x / y))"

subsection \<open>Arrays\<close>

text \<open>
  \<open>Array.prototype.sort(cmp)\<close> is a stable sort: \<open>a\<close> stays before \<open>b\<close> unless
  \<open>cmp(a, b) > 0\<close>. It is modelled by insertion from the right.
\<close>

fun insertBy :: "('a \<Rightarrow> 'a \<Rightarrow> real) \<Rightarrow> 'a \<Rightarrow> 'a list \<Rightarrow> 'a list" where
  "insertBy cmp x [] = [x]"
| "insertBy cmp x (y # ys) = (if cmp x y \<le> 0 then x # y # ys else y # insertBy cmp x ys)"

fun sortBy :: "('a \<Rightarrow> 'a \<Rightarrow> real) \<Rightarrow> 'a list \<Rightarrow> 'a list" where
  "sortBy cmp [] = []"
| "sortBy cmp (x # xs) = insertBy cmp x (sortBy cmp xs)"

text \<open>
  \<open>xs.slice(0, end)\<close>: \<open>end\<close> is truncated to an integer; a negative \<open>end\<close>
  counts from the end of the array.
\<close>

definition slice0 :: "real \<Rightarrow> 'a list \<Rightarrow> 'a list" where
  "slice0 end' xs =
     (let relativeEnd = (if 0 \<le> end' then \<lfloor>end'\<rfloor> else \<lceil>end'\<rceil>);
          len = int (length xs);
          final = (if relativeEnd < 0 then max (len + relativeEnd) 0 else min relativeEnd len)
      in take (nat final) xs)"

text \<open>\<open>keys.join('|')\<close>.\<close>

fun joinBar :: "string list \<Rightarrow> string" where
  "joinBar [] = []"
| "joinBar [k] = k"
| "joinBar (k # k' # ks) = k @ ''|'' @ joinBar (k' # ks)"

subsection \<open>Calls to the reporting API and the permission fallback\<close>

record Row =
  keys :: "string list option"
  clicks :: "real option"
  impressions :: "real option"
  ctr :: "real option"
  position :: "real option"

record SearchAnalyticsRequest =
  startDate :: string
  endDate :: string
  dimensions :: "string list"
  rowLimit :: real
  dataState :: string

text \<open>
  The three calls that take a site URL. The API is outside the program: \<open>api\<close>
  gives, for the calls made so far and the call made now, the reply or the value
  thrown. A reply is modelled by its \<open>data.rows\<close> member, the only part the
  service reads. Every service function takes the log of calls and returns it
  extended by the calls it made.
\<close>

datatype call =
    SearchanalyticsQuery string SearchAnalyticsRequest
  | SitemapsList string
  | SitemapsSubmit string string

datatype thrown = JsError string | NonError

type_synonym reply = "Row list option"

type_synonym api = "call list \<Rightarrow> call \<Rightarrow> thrown + reply"

definition request :: "api \<Rightarrow> call \<Rightarrow> call list \<Rightarrow> (thrown + reply) \<times> call list" where
  "request api c calls = (api calls c, calls @ [c])"

text \<open>
  \<open>normalizeUrl\<close>. The platform's URL parser is a parameter: \<open>parseUrl url\<close> is
  \<open>None\<close> when \<open>new URL(url)\<close> throws and the pair of \<open>protocol\<close> and
  \<open>hostname\<close> otherwise.
\<close>

definition normalizeUrl :: "(string \<Rightarrow> (string \<times> string) option) \<Rightarrow> string \<Rightarrow> string" where
  "normalizeUrl parseUrl url =
     (case parseUrl url of
        None \<Rightarrow> url
      | Some (protocol, hostname) \<Rightarrow>
          if protocol = ''http:'' \<or> protocol = ''https:'' then ''sc-domain:'' @ hostname
          else url)"

text \<open>Line 296: \<open>err instanceof Error && err.message.toLowerCase().includes('permission')\<close>.\<close>

definition isPermissionError :: "thrown \<Rightarrow> bool" where
  "isPermissionError err =
     (case err of
        JsError message \<Rightarrow> includesStr (toLowerCase message) ''permission''
      | NonError \<Rightarrow> False)"

definition handlePermissionError ::
  "('s \<Rightarrow> (thrown + 'r) \<times> 's) \<Rightarrow> ('s \<Rightarrow> (thrown + 'r) \<times> 's) \<Rightarrow> 's \<Rightarrow> (thrown + 'r) \<times> 's" where
  "handlePermissionError operation fallbackOperation s =
     (case operation s of
        (Inr v, s1) \<Rightarrow> (Inr v, s1)
      | (Inl err, s1) \<Rightarrow>
          if isPermissionError err then fallbackOperation s1 else (Inl err, s1))"

definition searchAnalytics ::
  "(string \<Rightarrow> (string \<times> string) option) \<Rightarrow> api \<Rightarrow> string \<Rightarrow> SearchAnalyticsRequest \<Rightarrow>
     call list \<Rightarrow> (thrown + reply) \<times> call list" where
  "searchAnalytics parseUrl api siteUrl requestBody =
     handlePermissionError
       (request api (SearchanalyticsQuery siteUrl requestBody))
       (request api (SearchanalyticsQuery (normalizeUrl parseUrl siteUrl) requestBody))"

definition listSitemaps ::
  "(string \<Rightarrow> (string \<times> string) option) \<Rightarrow> api \<Rightarrow> string \<Rightarrow>
     call list \<Rightarrow> (thrown + reply) \<times> call list" where
  "listSitemaps parseUrl api siteUrl =
     handlePermissionError
       (request api (SitemapsList siteUrl))
       (request api (SitemapsList (normalizeUrl parseUrl siteUrl)))"

definition submitSitemap ::
  "(string \<Rightarrow> (string \<times> string) option) \<Rightarrow> api \<Rightarrow> string \<Rightarrow> string \<Rightarrow>
     call list \<Rightarrow> (thrown + reply) \<times> call list" where
  "submitSitemap parseUrl api siteUrl feedpath =
     handlePermissionError
       (request api (SitemapsSubmit siteUrl feedpath))
       (request api (SitemapsSubmit (normalizeUrl parseUrl siteUrl) feedpath))"

subsection \<open>\<open>detectQuickWins\<close>\<close>

record Thresholds =
  minImpressions :: real
  maxCtr :: real
  positionRangeMin :: real
  positionRangeMax :: real
  limit :: real

datatype Opportunity = High | Medium | Low

text \<open>
  \<open>optimizationNote\<close> is a string built from a fixed template; the model keeps
  its two interpolated values, \<open>position.toFixed(1)\<close> and \<open>targetCtr\<close>.
\<close>

record QuickWin =
  query :: string
  page :: string
  currentPosition :: real
  qw_impressions :: real
  currentClicks :: real
  currentCtr :: real
  potentialClicks :: real
  additionalClicks :: real
  opportunity :: Opportunity
  optimizationNote :: "real \<times> real"

text \<open>\<open>row.keys?.[i] || 'N/A'\<close>.\<close>

definition keyOrNA :: "string list option \<Rightarrow> nat \<Rightarrow> string" where
  "keyOrNA ks i =
     (case ks of
        None \<Rightarrow> ''N/A''
      | Some l \<Rightarrow> if i < length l \<and> l ! i \<noteq> [] then l ! i else ''N/A'')"

text \<open>Lines 351-362: the callback of \<open>filter\<close>.\<close>

definition quickWinFilter :: "Thresholds \<Rightarrow> Row \<Rightarrow> bool" where
  "quickWinFilter thresholds row =
     (let impressions' = numOr0 (impressions row);
          ctr' = numOr0 (ctr row) * 100;
          position' = numOr0 (position row)
      in impressions' \<ge> minImpressions thresholds \<and>
         ctr' \<le> maxCtr thresholds \<and>
         position' \<ge> positionRangeMin thresholds \<and>
         position' \<le> positionRangeMax thresholds)"

text \<open>Lines 363-392: the callback of \<open>map\<close>.\<close>

definition quickWinMap :: "Row \<Rightarrow> QuickWin" where
  "quickWinMap row =
     (let impressions' = numOr0 (impressions row);
          currentClicks' = numOr0 (clicks row);
          currentCtr' = numOr0 (ctr row) * 100;
          position' = numOr0 (position row);
          targetCtr = (if position' \<le> 5 then 8 else if position' \<le> 10 then 5 else 3);
          potentialClicks' = mathRound ((impressions' * targetCtr) / 100);
          additionalClicks' = max 0 (potentialClicks' - currentClicks');
          opportunity' = (if additionalClicks' \<ge> 100 then High
                          else if additionalClicks' \<ge> 30 then Medium
                          else Low)
      in \<lparr>query = keyOrNA (keys row) 0,
          page = keyOrNA (keys row) 1,
          currentPosition = toFixed 1 position',
          qw_impressions = impressions',
          currentClicks = currentClicks',
          currentCtr = toFixed 2 currentCtr',
          potentialClicks = potentialClicks',
          additionalClicks = additionalClicks',
          opportunity = opportunity',
          optimizationNote = (toFixed 1 position', targetCtr)\<rparr>)"

text \<open>Lines 350-394: the value of \<open>quickWins\<close>, from the rows of the reply.\<close>

definition quickWins :: "Thresholds \<Rightarrow> Row list \<Rightarrow> QuickWin list" where
  "quickWins thresholds rows' =
     slice0 (limit thresholds)
       (sortBy (\<lambda>a b. additionalClicks b - additionalClicks a)
          (map quickWinMap (filter (quickWinFilter thresholds) rows')))"

text \<open>\<open>result.data.rows || []\<close>.\<close>

definition rowsOrEmpty :: "reply \<Rightarrow> Row list" where
  "rowsOrEmpty r = (case r of None \<Rightarrow> [] | Some rs \<Rightarrow> rs)"

definition detectQuickWins ::
  "(string \<Rightarrow> (string \<times> string) option) \<Rightarrow> api \<Rightarrow> string \<Rightarrow> string \<Rightarrow> string \<Rightarrow> Thresholds \<Rightarrow>
     call list \<Rightarrow> (thrown + QuickWin list) \<times> call list" where
  "detectQuickWins parseUrl api siteUrl start end' thresholds calls =
     (case searchAnalytics parseUrl api siteUrl
             \<lparr>startDate = start, endDate = end', dimensions = [''query'', ''page''],
              rowLimit = 25000, dataState = ''all''\<rparr> calls of
        (Inl err, calls') \<Rightarrow> (Inl err, calls')
      | (Inr result, calls') \<Rightarrow> (Inr (quickWins thresholds (rowsOrEmpty result)), calls'))"

subsection \<open>\<open>comparePeriods\<close>\<close>

text \<open>
  \<open>clicksPercent\<close> is \<open>null\<close> or a number; \<open>NonFinite\<close> stands for a number that
  is not finite.
\<close>

datatype percent = Null | Percent real | NonFinite

record Metrics =
  m_clicks :: real
  m_impressions :: real
  m_position :: real
  m_ctr :: real

record Change =
  ch_clicks :: real
  clicksPercent :: percent
  ch_impressions :: real
  ch_position :: real
  ch_ctr :: real

record Comparison =
  cmp_keys :: "string list option"
  current :: Metrics
  previous :: Metrics
  change :: Change

text \<open>Lines 484-486: the \<open>Map\<close> built from the previous period's rows; the key of
  a row without \<open>keys\<close> is \<open>undefined\<close>.\<close>

definition previousLookup :: "Row list \<Rightarrow> (string option, Row) jsmap" where
  "previousLookup previousRows =
     foldl (\<lambda>m row. Map_set (map_option joinBar (keys row)) row m) [] previousRows"

text \<open>Lines 518-520 and 560-562: the percentage of change.\<close>

definition clicksPercentOf :: "real \<Rightarrow> real \<Rightarrow> percent" where
  "clicksPercentOf currentClicks' previousClicks' =
     (if previousClicks' > 0
      then (case jsDivide (currentClicks' - previousClicks') previousClicks' of
              None \<Rightarrow> NonFinite
            | Some q \<Rightarrow> Percent (toFixed 1 (q * 100)))
      else Null)"

text \<open>\<open>previousRow?.field || 0\<close>.\<close>

definition prevOr0 :: "Row option \<Rightarrow> (Row \<Rightarrow> real option) \<Rightarrow> real" where
  "prevOr0 previousRow field = (case previousRow of None \<Rightarrow> 0 | Some r \<Rightarrow> numOr0 (field r))"

text \<open>Lines 489-526: the callback of \<open>map\<close> over the current rows.\<close>

definition compareRow :: "(string option, Row) jsmap \<Rightarrow> Row \<Rightarrow> Comparison" where
  "compareRow lookup currentRow =
     (let key = map_option joinBar (keys currentRow);
          previousRow = Map_get lookup (Some (strOrEmpty key));
          currentClicks' = numOr0 (clicks currentRow);
          previousClicks' = prevOr0 previousRow clicks;
          currentImpressions = numOr0 (impressions currentRow);
          previousImpressions = prevOr0 previousRow impressions;
          currentPosition' = numOr0 (position currentRow);
          previousPosition = prevOr0 previousRow position;
          currentCtr' = numOr0 (ctr currentRow) * 100;
          previousCtr = prevOr0 previousRow ctr * 100
      in \<lparr>cmp_keys = keys currentRow,
          current = \<lparr>m_clicks = currentClicks', m_impressions = currentImpressions,
                     m_position = toFixed 1 currentPosition', m_ctr = toFixed 2 currentCtr'\<rparr>,
          previous = \<lparr>m_clicks = previousClicks', m_impressions = previousImpressions,
                      m_position = toFixed 1 previousPosition, m_ctr = toFixed 2 previousCtr\<rparr>,
          change = \<lparr>ch_clicks = currentClicks' - previousClicks',
                    clicksPercent = clicksPercentOf currentClicks' previousClicks',
                    ch_impressions = currentImpressions - previousImpressions,
                    ch_position = toFixed 1 (previousPosition - currentPosition'),
                    ch_ctr = toFixed 2 (currentCtr' - previousCtr)\<rparr>\<rparr>)"

text \<open>Lines 480-529: the sorted \<open>comparison\<close>, from the two replies.\<close>

definition comparison :: "reply \<Rightarrow> reply \<Rightarrow> Comparison list" where
  "comparison current' previous' =
     (let currentRows = rowsOrEmpty current';
          previousRows = rowsOrEmpty previous'
      in sortBy (\<lambda>a b. ch_clicks (change b) - ch_clicks (change a))
           (map (compareRow (previousLookup previousRows)) currentRows))"

text \<open>Lines 532-566: the totals of a period and the summary's change.\<close>

definition totals :: "Row list \<Rightarrow> real \<times> real" where
  "totals rows' =
     foldl (\<lambda>acc row. (fst acc + numOr0 (clicks row), snd acc + numOr0 (impressions row)))
       (0, 0) rows'"

record Summary =
  currentPeriod :: "string \<times> string \<times> real \<times> real"
  previousPeriod :: "string \<times> string \<times> real \<times> real"
  summaryChange :: "real \<times> percent \<times> real"

text \<open>
  \<open>comparePeriods\<close>, from the replies of its two \<open>searchAnalytics\<close> calls (awaited
  together by \<open>Promise.all\<close>) to the value it returns.
\<close>

definition comparePeriods ::
  "reply \<Rightarrow> reply \<Rightarrow> string \<Rightarrow> string \<Rightarrow> string \<Rightarrow> string \<Rightarrow> Comparison list \<times> Summary" where
  "comparePeriods current' previous' currentStart currentEnd previousStart previousEnd =
     (let currentTotals = totals (rowsOrEmpty current');
          previousTotals = totals (rowsOrEmpty previous');
          currClicks = fst currentTotals; prevClicks = fst previousTotals;
          currImpressions = snd currentTotals; prevImpressions = snd previousTotals
      in (comparison current' previous',
          \<lparr>currentPeriod = (currentStart, currentEnd, currClicks, currImpressions),
           previousPeriod = (previousStart, previousEnd, prevClicks, prevImpressions),
           summaryChange = (currClicks - prevClicks, clicksPercentOf currClicks prevClicks,
                            currImpressions - prevImpressions)\<rparr>))"

section \<open>Notions used to state the properties\<close>



text \<open>
  The rule of the specification for the default account: the lexicographically
  first id, strings compared character by character.
\<close>

fun strLess :: "string \<Rightarrow> string \<Rightarrow> bool" where
  "strLess [] [] = False"
| "strLess [] (y # ys) = True"
| "strLess (x # xs) [] = False"
| "strLess (x # xs) (y # ys) = ((of_char x :: nat) < of_char y \<or> (x = y \<and> strLess xs ys))"

fun spec_lexFirst :: "string list \<Rightarrow> string option" where
  "spec_lexFirst [] = None"
| "spec_lexFirst (x # xs) =
     (case spec_lexFirst xs of
        None \<Rightarrow> Some x
      | Some y \<Rightarrow> if strLess y x then Some y else Some x)"

subsection \<open>Concrete inputs\<close>

text \<open>An identity provider that always issues a token valid for one hour.\<close>

definition issuer :: Env where
  "issuer = \<lparr>now = 1000,
     refreshAccessToken = (\<lambda>c. Inr \<lparr>refresh_token = refresh_token c,
        access_token = Some ''fresh'', expiry_date = Some 3601000\<rparr>)\<rparr>"

text \<open>An identity provider that rejects every refresh.\<close>

definition revoked :: Env where
  "revoked = \<lparr>now = 1000, refreshAccessToken = (\<lambda>c. Inl ''invalid_grant'')\<rparr>"

definition emptyManager :: AccountManager where
  "emptyManager = newAccountManager ''cid'' ''secret''"

definition registeredBA :: AccountManager where
  "registeredBA =
     registerAccount ''a'' ''a@e.com'' ''t2'' None
       (registerAccount ''b'' ''b@e.com'' ''t1'' (Some ''old'') emptyManager)"





definition defaults :: Thresholds where
  "defaults = \<lparr>minImpressions = 100, maxCtr = 3, positionRangeMin = 4,
     positionRangeMax = 20, limit = 50\<rparr>"

definition stricter :: Thresholds where
  "stricter = \<lparr>minImpressions = 500, maxCtr = 3, positionRangeMin = 5,
     positionRangeMax = 10, limit = 50\<rparr>"

definition topTwo :: Thresholds where
  "topTwo = \<lparr>minImpressions = 100, maxCtr = 3, positionRangeMin = 4,
     positionRangeMax = 20, limit = 2\<rparr>"

definition mkRow :: "string \<Rightarrow> real \<Rightarrow> real \<Rightarrow> real \<Rightarrow> real \<Rightarrow> Row" where
  "mkRow q i c r p =
     \<lparr>keys = Some [q, ''/page''], clicks = Some c, impressions = Some i, ctr = Some r,
      position = Some p\<rparr>"

definition exampleRow :: Row where
  "exampleRow = mkRow ''shoes'' 1000 20 (2 / 100) 6"

definition threeRows :: "Row list" where
  "threeRows = [mkRow ''first'' 400 2 (1 / 200) 12, exampleRow, mkRow ''third'' 400 2 (1 / 200) 15]"

definition httpsParser :: "string \<Rightarrow> (string \<times> string) option" where
  "httpsParser url =
     (if url = ''https://example.com/'' then Some (''https:'', ''example.com'')
      else if url = ''sc-domain:example.com'' then Some (''sc-domain:'', [])
      else None)"

definition domainOnlyApi :: api where
  "domainOnlyApi calls c =
     (case c of
        SearchanalyticsQuery u b \<Rightarrow>
          if u = ''sc-domain:example.com'' then Inr (Some [exampleRow])
          else Inl (JsError ''User does not have sufficient Permission for site'')
      | SitemapsList u \<Rightarrow> Inl (JsError ''Not found'')
      | SitemapsSubmit u f \<Rightarrow> Inl (JsError ''Forbidden: no permission''))"

definition weekRequest :: SearchAnalyticsRequest where
  "weekRequest = \<lparr>startDate = ''2024-01-01'', endDate = ''2024-01-07'',
     dimensions = [''query''], rowLimit = 100, dataState = ''all''\<rparr>"





section \<open>Properties of the account manager\<close>

subsection \<open>Auxiliary facts\<close>



















lemma cachedClient_keeps:
  "cachedClient m a = (c, m1) \<Longrightarrow>
     accountStore m1 = accountStore m \<and> refreshCalls m1 = refreshCalls m"
  by (auto simp: cachedClient_def Let_def split: option.splits)

text \<open>What the last part of \<open>getAuthClient\<close> does, by cases on the refresh.\<close>

lemma ensureValidToken_cases:
  assumes "ensureValidToken env c a m = (res, m2)"
  shows "(let tokens = credentials (clientStore m c);
              account = accountStore m a;
              stale = needsRefresh (now env) tokens account
          in refreshCalls m2 = refreshCalls m @ (if stale then [tokens] else [])
           \<and> authClients m2 = authClients m \<and> clientNext m2 = clientNext m
           \<and> (case refreshAccessToken env tokens of
                 Inl cause \<Rightarrow>
                   if stale then res = Inl (TokenRefreshFailed (email account) cause)
                   else res = Inr (c, a) \<and> credentials (clientStore m2 c) = tokens
               | Inr creds \<Rightarrow>
                   res = Inr (c, a) \<and>
                   credentials (clientStore m2 c) = (if stale then creds else tokens)))"
  using assms
  by (auto simp: ensureValidToken_def Let_def split: if_splits sum.splits)

lemma getAuthClient_account:
  assumes "getAuthClient env sel m = (Inr (c, a), m')"
  shows "resolveAccount m sel = Inr a"
proof (cases "resolveAccount m sel")
  case (Inl e)
  with assms show ?thesis by (simp add: getAuthClient_def)
next
  case (Inr a')
  obtain c' m1 where cc: "cachedClient m a' = (c', m1)" by (cases "cachedClient m a'")
  have "ensureValidToken env c' a' m1 = (Inr (c, a), m')"
    using assms Inr cc by (simp add: getAuthClient_def)
  then have "a = a'"
    by (auto simp: ensureValidToken_def Let_def split: if_splits sum.splits)
  with Inr show ?thesis by simp
qed

lemma listAccounts_first:
  "accounts m = (k, p) # rest \<Longrightarrow>
     \<exists>more. listAccounts m = (id' (accountStore m p), email (accountStore m p)) # more"
  by (simp add: listAccounts_def)

lemma listAccounts_empty: "accounts m = [] \<Longrightarrow> listAccounts m = []"
  by (simp add: listAccounts_def)

subsection \<open>Token refresh\<close>

text \<open>
  Claim C1. Let \<open>getAuthClient\<close> resolve the selector to an account, and let
  \<open>tokens\<close> be the credentials of that account's client (the cached one, or the
  one just created). The call is \<open>stale\<close> when \<open>tokens\<close> has no access token
  (missing or empty), or when the known expiry - the credentials' \<open>expiry_date\<close>,
  else the account's \<open>expiresAt\<close>, else zero - is less than \<open>now + 60000\<close>. Then
  \<open>refreshAccessToken\<close> is called exactly when the call is stale, and once. If it
  is stale and the refresh fails, the result is the error built from the
  account's email and the cause. Otherwise the result is the client and the
  account, and the client holds the credentials the refresh returned when the
  call was stale, and its unchanged credentials (which carry an access token that
  is not about to expire) when it was not.
\<close>

theorem refresh_exactly_when_stale:
  assumes resolved: "resolveAccount m sel = Inr a"
    and client: "cachedClient m a = (c, m1)"
  shows "(let tokens = credentials (clientStore m1 c);
              account = accountStore m a;
              expiry = (if truthyNum (expiry_date tokens) then the (expiry_date tokens)
                        else if truthyNum (expiresAt account) then the (expiresAt account)
                        else 0);
              stale = (\<not> truthyStr (access_token tokens) \<or> expiry < now env + 60000)
          in case getAuthClient env sel m of
               (res, m2) \<Rightarrow>
                 refreshCalls m2 = refreshCalls m @ (if stale then [tokens] else [])
                 \<and> (case refreshAccessToken env tokens of
                       Inl cause \<Rightarrow>
                         if stale then res = Inl (TokenRefreshFailed (email account) cause)
                         else res = Inr (c, a) \<and> credentials (clientStore m2 c) = tokens
                     | Inr creds \<Rightarrow>
                         res = Inr (c, a) \<and>
                         credentials (clientStore m2 c) = (if stale then creds else tokens)))"
proof -
  obtain res m2 where run: "getAuthClient env sel m = (res, m2)"
    by (cases "getAuthClient env sel m")
  have acc: "accountStore m1 = accountStore m" and calls: "refreshCalls m1 = refreshCalls m"
    using cachedClient_keeps[OF client] by simp_all
  have "ensureValidToken env c a m1 = (res, m2)"
    using run resolved client by (simp add: getAuthClient_def)
  from ensureValidToken_cases[OF this] show ?thesis
    unfolding run by (simp add: Let_def acc calls needsRefresh_def knownExpiry_def)
qed

theorem refresh_exactly_when_stale_witness:
  "resolveAccount registeredBA (Some ''B@E.com'') = Inr 0
   \<and> fst (getAuthClient issuer (Some ''B@E.com'') registeredBA) = Inr (0, 0)
   \<and> refreshCalls (snd (getAuthClient issuer (Some ''B@E.com'') registeredBA)) =
       [\<lparr>refresh_token = Some ''t1'', access_token = Some ''old'', expiry_date = None\<rparr>]
   \<and> access_token (credentials (clientStore (snd (getAuthClient issuer (Some ''B@E.com'') registeredBA)) 0))
       = Some ''fresh''
   \<and> fst (getAuthClient revoked (Some ''B@E.com'') registeredBA)
       = Inl (TokenRefreshFailed ''b@e.com'' ''invalid_grant'')"
proof -
  have r: "resolveAccount registeredBA (Some ''B@E.com'') = Inr 0"
    by code_simp
  have c: "cachedClient registeredBA 0 = (0, snd (cachedClient registeredBA 0))"
  proof -
    have "fst (cachedClient registeredBA 0) = 0" by code_simp
    then show ?thesis by (simp add: prod_eq_iff)
  qed
  have t: "credentials (clientStore (snd (cachedClient registeredBA 0)) 0) =
      \<lparr>refresh_token = Some ''t1'', access_token = Some ''old'', expiry_date = None\<rparr>"
    by code_simp
  have a: "expiresAt (accountStore registeredBA 0) = None" "email (accountStore registeredBA 0) = ''b@e.com''"
    "refreshCalls registeredBA = []"
    by code_simp+
  have i: "now issuer = 1000" "refreshAccessToken issuer =
     (\<lambda>c. Inr \<lparr>refresh_token = refresh_token c, access_token = Some ''fresh'', expiry_date = Some 3601000\<rparr>)"
    "now revoked = 1000" "refreshAccessToken revoked = (\<lambda>c. Inl ''invalid_grant'')"
    by (simp_all add: issuer_def revoked_def)
  show ?thesis
    using refresh_exactly_when_stale[OF r c, of issuer] refresh_exactly_when_stale[OF r c, of revoked] r
    by (simp add: Let_def t a i truthyNum_def truthyStr_def split: prod.splits)
qed

subsection \<open>The default account\<close>

text \<open>
  Claim C2, as the specification states it, fails: with account \<open>b\<close> registered
  before account \<open>a\<close>, a call without selector returns account \<open>b\<close>, whose id is
  not the lexicographically first one.
\<close>

theorem default_account_not_lexicographic:
  "fst (getAuthClient issuer None registeredBA) = Inr (0, 0)
   \<and> id' (accountStore (snd (getAuthClient issuer None registeredBA)) 0) = ''b''
   \<and> spec_lexFirst (map fst (listAccounts registeredBA)) = Some ''a''"
  by code_simp

text \<open>
  Claim C2, amended. Without a selector (\<open>undefined\<close> or the empty string),
  \<open>getAuthClient\<close> fails with the no-accounts error when no account is
  registered; otherwise the account it returns is the one that \<open>getAccount\<close>
  finds under the id of the account of the first entry of the \<open>accounts\<close> map,
  in the map's insertion order.
\<close>

theorem default_account_is_first_entry:
  assumes "\<not> truthyStr sel"
  shows "(accounts m = [] \<longrightarrow> getAuthClient env sel m = (Inl NoAccountsConfigured, m))
       \<and> (\<forall>k p rest c a m'.
            accounts m = (k, p) # rest \<and> getAuthClient env sel m = (Inr (c, a), m')
            \<longrightarrow> getAccount m (id' (accountStore m p)) = Some a)"
proof -
  have 1: "getAuthClient env sel m = (Inl NoAccountsConfigured, m)" if "accounts m = []"
    using that assms by (simp add: getAuthClient_def resolveAccount_def listAccounts_empty)
  have 2: "getAccount m (id' (accountStore m p)) = Some a"
    if e: "accounts m = (k, p) # rest" and r: "getAuthClient env sel m = (Inr (c, a), m')"
    for k p rest c a m'
  proof -
    obtain more where
      l: "listAccounts m = (id' (accountStore m p), email (accountStore m p)) # more"
      using listAccounts_first[OF e] by blast
    have "resolveAccount m sel = Inr a"
      using getAuthClient_account[OF r] .
    then show ?thesis
      using assms l by (auto simp: resolveAccount_def split: option.splits)
  qed
  show ?thesis using 1 2 by blast
qed

theorem default_account_is_first_entry_witness:
  "\<not> truthyStr None
   \<and> getAuthClient issuer None emptyManager = (Inl NoAccountsConfigured, emptyManager)
   \<and> accounts registeredBA = [(''b'', 0), (''b@e.com'', 0), (''a'', 1), (''a@e.com'', 1)]
   \<and> fst (getAuthClient issuer None registeredBA) = Inr (0, 0)
   \<and> getAccount registeredBA (id' (accountStore registeredBA 0)) = Some 0"
proof -
  have n: "\<not> truthyStr None" by (simp add: truthyStr_def)
  have e: "accounts emptyManager = []" by (simp add: emptyManager_def newAccountManager_def)
  have l: "accounts registeredBA = [(''b'', 0), (''b@e.com'', 0), (''a'', 1), (''a@e.com'', 1)]"
    by code_simp
  have r: "fst (getAuthClient issuer None registeredBA) = Inr (0, 0)"
    by code_simp
  then have r': "getAuthClient issuer None registeredBA =
      (Inr (0, 0), snd (getAuthClient issuer None registeredBA))"
    by (simp add: prod_eq_iff)
  have none: "getAuthClient issuer None emptyManager = (Inl NoAccountsConfigured, emptyManager)"
    using default_account_is_first_entry[OF n, of emptyManager issuer] e by simp
  have "accounts registeredBA = (''b'', 0) # [(''b@e.com'', 0), (''a'', 1), (''a@e.com'', 1)]
      \<and> getAuthClient issuer None registeredBA =
          (Inr (0, 0), snd (getAuthClient issuer None registeredBA))"
    using l r' by simp
  then have first: "getAccount registeredBA (id' (accountStore registeredBA 0)) = Some 0"
    using default_account_is_first_entry[OF n, of registeredBA issuer] by blast
  show ?thesis using n none l r first by simp
qed

subsection \<open>Lookup by id and by email\<close>




subsection \<open>Registering an id again\<close>








section \<open>Properties of the analytics\<close>

subsection \<open>Sorting and slicing\<close>

lemma insertBy_insort:
  assumes "\<And>x y. (cmp x y \<le> 0) = (f x \<le> f y)"
  shows "insertBy cmp x ys = insort_key f x ys"
  by (induction ys) (simp_all add: assms)

lemma sortBy_sort_key:
  assumes "\<And>x y. (cmp x y \<le> 0) = (f x \<le> f y)"
  shows "sortBy cmp xs = sort_key f xs"
  by (induction xs) (simp_all add: insertBy_insort[OF assms])

lemma sortBy_desc: "sortBy (\<lambda>a b. k b - k a) xs = sort_key (\<lambda>x. - k x) xs"
  by (rule sortBy_sort_key) auto

lemma mset_sortBy_desc: "mset (sortBy (\<lambda>a b. k b - k a) xs) = mset xs"
  by (simp add: sortBy_desc)

lemma length_sortBy_desc: "length (sortBy (\<lambda>a b. k b - k a) xs) = length xs"
  by (simp add: sortBy_desc)

lemma sorted_sortBy_desc:
  "sorted_wrt (\<lambda>a b. k a \<ge> k b) (sortBy (\<lambda>a b. k b - k a) (xs :: 'a list))"
proof -
  have "sorted (map (\<lambda>x. - k x) (sort_key (\<lambda>x. - k x) xs))"
    by (rule sorted_sort_key)
  then show ?thesis
    by (simp add: sortBy_desc sorted_map)
qed

lemma stable_sortBy_desc:
  "filter (\<lambda>x. k x = v) (sortBy (\<lambda>a b. k b - k a) xs) = filter (\<lambda>x. k x = v) xs"
proof -
  have "filter (\<lambda>x. - k x = - v) (sort_key (\<lambda>x. - k x) xs) = filter (\<lambda>x. - k x = - v) xs"
    by (rule sort_key_stable)
  then show ?thesis by (simp add: sortBy_desc)
qed

lemma slice0_nonneg: "0 \<le> e \<Longrightarrow> slice0 e xs = take (nat \<lfloor>e\<rfloor>) xs"
  by (auto simp: slice0_def Let_def min_def)


lemma length_slice0:
  "length (slice0 e xs) =
     (let r = (if 0 \<le> e then \<lfloor>e\<rfloor> else \<lceil>e\<rceil>)
      in nat (if r < 0 then max (int (length xs) + r) 0 else min r (int (length xs))))"
proof -
  define r where "r = (if 0 \<le> e then \<lfloor>e\<rfloor> else \<lceil>e\<rceil>)"
  define final where
    "final = (if r < 0 then max (int (length xs) + r) 0 else min r (int (length xs)))"
  have "final \<le> int (length xs)"
    unfolding final_def by (cases "r < 0") auto
  then have "length (take (nat final) xs) = nat final"
    by simp
  then show ?thesis
    unfolding slice0_def Let_def final_def r_def .
qed

lemma length_slice0_mono:
  assumes "length xs \<le> length ys"
  shows "length (slice0 e xs) \<le> length (slice0 e ys)"
proof -
  define r where "r = (if 0 \<le> e then \<lfloor>e\<rfloor> else \<lceil>e\<rceil>)"
  have "nat (if r < 0 then max (int (length xs) + r) 0 else min r (int (length xs)))
      \<le> nat (if r < 0 then max (int (length ys) + r) 0 else min r (int (length ys)))"
    using assms by (cases "r < 0") auto
  then show ?thesis
    by (simp only: length_slice0 Let_def r_def)
qed

lemma length_filter_imp:
  "(\<And>x. P x \<Longrightarrow> Q x) \<Longrightarrow> length (filter P xs) \<le> length (filter Q xs)"
  by (induction xs) auto

subsection \<open>Quick wins\<close>

text \<open>
  \<open>detectQuickWins\<close> makes the calls of \<open>searchAnalytics\<close>; it throws what
  \<open>searchAnalytics\<close> throws and otherwise returns \<open>quickWins\<close> of the reply's
  rows. The properties below are stated on \<open>quickWins\<close>.
\<close>

lemma detectQuickWins_result:
  "detectQuickWins parseUrl api siteUrl start end' th calls =
     (case searchAnalytics parseUrl api siteUrl
             \<lparr>startDate = start, endDate = end', dimensions = [''query'', ''page''],
              rowLimit = 25000, dataState = ''all''\<rparr> calls of
        (res, calls') \<Rightarrow> (map_sum id (\<lambda>result. quickWins th (rowsOrEmpty result)) res, calls'))"
  by (simp add: detectQuickWins_def split: prod.splits sum.splits)



text \<open>
  Claim C8. For a fixed list of rows and a fixed limit, raising \<open>minImpressions\<close>,
  raising \<open>positionRangeMin\<close> or lowering \<open>positionRangeMax\<close> (and likewise
  lowering \<open>maxCtr\<close>) never increases the number of rows returned.
\<close>

theorem quickWins_count_monotone:
  assumes "minImpressions t1 \<le> minImpressions t2"
    and "positionRangeMin t1 \<le> positionRangeMin t2"
    and "positionRangeMax t2 \<le> positionRangeMax t1"
    and "maxCtr t2 \<le> maxCtr t1"
    and "limit t2 = limit t1"
  shows "length (quickWins t2 rs) \<le> length (quickWins t1 rs)"
proof -
  have "length (filter (quickWinFilter t2) rs) \<le> length (filter (quickWinFilter t1) rs)"
  proof (rule length_filter_imp)
    fix r assume "quickWinFilter t2 r"
    then show "quickWinFilter t1 r"
      using assms(1-4) by (auto simp: quickWinFilter_def Let_def)
  qed
  then have "length (sortBy (\<lambda>a b. additionalClicks b - additionalClicks a)
                (map quickWinMap (filter (quickWinFilter t2) rs)))
           \<le> length (sortBy (\<lambda>a b. additionalClicks b - additionalClicks a)
                (map quickWinMap (filter (quickWinFilter t1) rs)))"
    by (simp add: length_sortBy_desc)
  then show ?thesis
    unfolding quickWins_def assms(5) by (rule length_slice0_mono)
qed

theorem quickWins_count_monotone_witness:
  "minImpressions defaults \<le> minImpressions stricter
   \<and> positionRangeMin defaults \<le> positionRangeMin stricter
   \<and> positionRangeMax stricter \<le> positionRangeMax defaults
   \<and> length (quickWins stricter threeRows) = 1
   \<and> length (quickWins defaults threeRows) = 3
   \<and> length (quickWins stricter threeRows) \<le> length (quickWins defaults threeRows)"
proof -
  have 1: "minImpressions defaults \<le> minImpressions stricter"
    and 2: "positionRangeMin defaults \<le> positionRangeMin stricter"
    and 3: "positionRangeMax stricter \<le> positionRangeMax defaults"
    and 4: "maxCtr stricter \<le> maxCtr defaults"
    and 5: "limit stricter = limit defaults"
    by (simp_all add: defaults_def stricter_def)
  have n: "length (quickWins stricter threeRows) = 1" "length (quickWins defaults threeRows) = 3"
    by code_simp+
  show ?thesis
    using quickWins_count_monotone[OF 1 2 3 4 5, of threeRows] 1 2 3 n by simp
qed

text \<open>
  Claim C9. The quick wins that pass the filter are ranked by a stable sort,
  descending by \<open>additionalClicks\<close>: the ranked list is a rearrangement of the
  candidates, its \<open>additionalClicks\<close> never increase, and the candidates with one
  and the same \<open>additionalClicks\<close> stand in it in their original order. The
  result is the first \<open>limit\<close> rows of the ranked list (\<open>limit\<close> being a count,
  hence not negative, and truncated to an integer).
\<close>

theorem quickWins_ranking:
  "(let candidates = map quickWinMap (filter (quickWinFilter th) rs);
        ranked = sortBy (\<lambda>a b. additionalClicks b - additionalClicks a) candidates
    in mset ranked = mset candidates
     \<and> sorted_wrt (\<lambda>a b. additionalClicks a \<ge> additionalClicks b) ranked
     \<and> (\<forall>v. filter (\<lambda>q. additionalClicks q = v) ranked
            = filter (\<lambda>q. additionalClicks q = v) candidates)
     \<and> (0 \<le> limit th \<longrightarrow> quickWins th rs = take (nat \<lfloor>limit th\<rfloor>) ranked))"
  unfolding Let_def
  by (simp add: mset_sortBy_desc sorted_sortBy_desc stable_sortBy_desc quickWins_def
        slice0_nonneg)

theorem quickWins_ranking_witness:
  "0 \<le> limit topTwo
   \<and> map additionalClicks (map quickWinMap (filter (quickWinFilter topTwo) threeRows)) = [10, 30, 10]
   \<and> map query (quickWins topTwo threeRows) = [''shoes'', ''first'']
   \<and> quickWins topTwo threeRows =
       take 2 (sortBy (\<lambda>a b. additionalClicks b - additionalClicks a)
                 (map quickWinMap (filter (quickWinFilter topTwo) threeRows)))"
proof -
  have l: "0 \<le> limit topTwo" "nat \<lfloor>limit topTwo\<rfloor> = 2"
    by (simp_all add: topTwo_def)
  have c: "map additionalClicks (map quickWinMap (filter (quickWinFilter topTwo) threeRows))
             = [10, 30, 10]"
    by code_simp
  have q: "map query (quickWins topTwo threeRows) = [''shoes'', ''first'']"
    by code_simp
  show ?thesis
    using quickWins_ranking[of topTwo threeRows] l c q by (simp add: Let_def)
qed

subsection \<open>Period comparison\<close>

text \<open>The rows that \<open>comparePeriods\<close> returns are \<open>comparison\<close> of the two replies.\<close>

lemma comparePeriods_rows:
  "fst (comparePeriods current' previous' currentStart currentEnd previousStart previousEnd) =
     comparison current' previous'"
  by (simp add: comparePeriods_def Let_def)




subsection \<open>The permission fallback\<close>

text \<open>
  Claim C5. Each of \<open>searchAnalytics\<close>, \<open>listSitemaps\<close> and \<open>submitSitemap\<close>
  follows one policy. It first makes its call with the site URL as given. If
  that call succeeds, or throws something that is not an \<open>Error\<close> whose
  lowercased message contains \<open>permission\<close>, this is the outcome and no other
  call is made. Otherwise it makes exactly one more call, with the normalized
  URL, and the outcome of that call, success or failure, is the outcome. The
  normalized URL is \<open>sc-domain:\<close> followed by the host name when the URL parses
  with protocol \<open>http:\<close> or \<open>https:\<close>; it is the URL itself when the URL does not
  parse or parses with another protocol, as a URL in \<open>sc-domain:\<close> form does.
\<close>

theorem permission_fallback_policy:
  fixes parseUrl :: "string \<Rightarrow> (string \<times> string) option" and api :: api
    and siteUrl feedpath :: string and requestBody :: SearchAnalyticsRequest
    and calls :: "call list"
  defines "normalized \<equiv> normalizeUrl parseUrl siteUrl"
  defines "policy \<equiv> \<lambda>first retry.
     (case api calls first of
        Inr v \<Rightarrow> (Inr v, calls @ [first])
      | Inl err \<Rightarrow>
          (case err of
             JsError message \<Rightarrow>
               if includesStr (toLowerCase message) ''permission''
               then (api (calls @ [first]) retry, calls @ [first, retry])
               else (Inl err, calls @ [first])
           | NonError \<Rightarrow> (Inl err, calls @ [first])))"
  shows "searchAnalytics parseUrl api siteUrl requestBody calls =
           policy (SearchanalyticsQuery siteUrl requestBody)
                  (SearchanalyticsQuery normalized requestBody)
       \<and> listSitemaps parseUrl api siteUrl calls =
           policy (SitemapsList siteUrl) (SitemapsList normalized)
       \<and> submitSitemap parseUrl api siteUrl feedpath calls =
           policy (SitemapsSubmit siteUrl feedpath) (SitemapsSubmit normalized feedpath)
       \<and> (\<forall>host. parseUrl siteUrl = Some (''http:'', host) \<or> parseUrl siteUrl = Some (''https:'', host)
             \<longrightarrow> normalized = ''sc-domain:'' @ host)
       \<and> (parseUrl siteUrl = None \<longrightarrow> normalized = siteUrl)
       \<and> (\<forall>protocol host. parseUrl siteUrl = Some (protocol, host)
             \<and> protocol \<noteq> ''http:'' \<and> protocol \<noteq> ''https:'' \<longrightarrow> normalized = siteUrl)"
proof -
  have p: "handlePermissionError (request api first) (request api retry) calls = policy first retry"
    for first retry
    by (simp add: handlePermissionError_def request_def policy_def isPermissionError_def
          split: sum.splits thrown.splits)
  have 1: "searchAnalytics parseUrl api siteUrl requestBody calls =
           policy (SearchanalyticsQuery siteUrl requestBody)
                  (SearchanalyticsQuery normalized requestBody)"
    by (simp add: searchAnalytics_def p normalized_def)
  have 2: "listSitemaps parseUrl api siteUrl calls =
           policy (SitemapsList siteUrl) (SitemapsList normalized)"
    by (simp add: listSitemaps_def p normalized_def)
  have 3: "submitSitemap parseUrl api siteUrl feedpath calls =
           policy (SitemapsSubmit siteUrl feedpath) (SitemapsSubmit normalized feedpath)"
    by (simp add: submitSitemap_def p normalized_def)
  have 4: "normalized = ''sc-domain:'' @ host"
    if "parseUrl siteUrl = Some (''http:'', host) \<or> parseUrl siteUrl = Some (''https:'', host)"
    for host
    using that by (auto simp: normalized_def normalizeUrl_def)
  have 5: "normalized = siteUrl" if "parseUrl siteUrl = None"
    using that by (simp add: normalized_def normalizeUrl_def)
  have 6: "normalized = siteUrl"
    if "parseUrl siteUrl = Some (protocol, host) \<and> protocol \<noteq> ''http:'' \<and> protocol \<noteq> ''https:''"
    for protocol host
    using that by (simp add: normalized_def normalizeUrl_def)
  show ?thesis using 1 2 3 4 5 6 by blast
qed

theorem permission_fallback_policy_witness:
  "searchAnalytics httpsParser domainOnlyApi ''https://example.com/'' weekRequest [] =
     (Inr (Some [exampleRow]),
      [SearchanalyticsQuery ''https://example.com/'' weekRequest,
       SearchanalyticsQuery ''sc-domain:example.com'' weekRequest])
   \<and> listSitemaps httpsParser domainOnlyApi ''https://example.com/'' [] =
     (Inl (JsError ''Not found''), [SitemapsList ''https://example.com/''])
   \<and> submitSitemap httpsParser domainOnlyApi ''https://example.com/'' ''/sitemap.xml'' [] =
     (Inl (JsError ''Forbidden: no permission''),
      [SitemapsSubmit ''https://example.com/'' ''/sitemap.xml'',
       SitemapsSubmit ''sc-domain:example.com'' ''/sitemap.xml''])
   \<and> normalizeUrl httpsParser ''sc-domain:example.com'' = ''sc-domain:example.com''
   \<and> normalizeUrl httpsParser ''not a url'' = ''not a url''"
proof -
  have u: "httpsParser ''https://example.com/'' = Some (''https:'', ''example.com'')"
    "httpsParser ''sc-domain:example.com'' = Some (''sc-domain:'', [])"
    "httpsParser ''not a url'' = None"
    by (simp_all add: httpsParser_def)
  have n: "normalizeUrl httpsParser ''https://example.com/'' = ''sc-domain:example.com''"
    using permission_fallback_policy[of httpsParser domainOnlyApi "''https://example.com/''"
        weekRequest "[]" "''/sitemap.xml''"] u(1)
    by simp
  have perm: "includesStr (toLowerCase ''User does not have sufficient Permission for site'')
                ''permission''"
    "\<not> includesStr (toLowerCase ''Not found'') ''permission''"
    "includesStr (toLowerCase ''Forbidden: no permission'') ''permission''"
    by code_simp+
  have s: "normalizeUrl httpsParser ''sc-domain:example.com'' = ''sc-domain:example.com''"
    using permission_fallback_policy[of httpsParser domainOnlyApi "''sc-domain:example.com''"
        weekRequest "[]" "''/sitemap.xml''"] u(2)
    by simp
  have x: "normalizeUrl httpsParser ''not a url'' = ''not a url''"
    using permission_fallback_policy[of httpsParser domainOnlyApi "''not a url''"
        weekRequest "[]" "''/sitemap.xml''"] u(3)
    by simp
  show ?thesis
    using permission_fallback_policy[of httpsParser domainOnlyApi "''https://example.com/''"
        weekRequest "[]" "''/sitemap.xml''"] s x
    unfolding n
    by (simp add: domainOnlyApi_def perm)
qed

end
